theory Spec2Isabelle
  imports Complex_Main "HOL-Library.Word" "HOL-Library.Sublist"
begin

section \<open>Numbers\<close>

text \<open>
  The service computes with Python floats. They are modelled by the real numbers: every
  arithmetic operation is exact, and there is neither overflow nor NaN. Python's
  \<^verbatim>\<open>round\<close> rounds halves to the even neighbour; \<^verbatim>\<open>round(x)\<close> returns an
  integer and \<^verbatim>\<open>round(x, n)\<close> a float with \<open>n\<close> decimals.
\<close>

definition py_round :: "real \<Rightarrow> int" where
  "py_round x =
     (let f = \<lfloor>x\<rfloor>; d = x - of_int f
      in if d < 1 / 2 then f
         else if 1 / 2 < d then f + 1
         else if even f then f else f + 1)"

definition py_round_nd :: "real \<Rightarrow> nat \<Rightarrow> real" where
  "py_round_nd x n = of_int (py_round (x * 10 ^ n)) / 10 ^ n"

section \<open>Severity classifier (utils.py)\<close>

definition get_damage_severity :: "real \<Rightarrow> real \<Rightarrow> real \<Rightarrow> real \<Rightarrow> string \<times> real" where
  "get_damage_severity width height img_width img_height =
     (let damage_area = max 0 width * max 0 height;
          image_area = max 1 (img_width * img_height);
          ratio = damage_area / image_area;
          bbox_pixels = damage_area;
          low_threshold = max 0.04 (2500 / image_area);
          medium_threshold = max 0.12 (8000 / image_area);
          severity =
            (if bbox_pixels < 1500 then ''low''
             else if ratio < low_threshold then ''low''
             else if ratio < medium_threshold then ''medium''
             else ''high'')
      in (severity, ratio))"

section \<open>Python values\<close>

datatype py_error = KeyError | IndexError | ValueError | ZeroDivisionError

text \<open>
  A dict literal is an association list with distinct keys; \<^verbatim>\<open>d[k]\<close> raises
  KeyError on a missing key and \<^verbatim>\<open>d.get(k, default)\<close> does not.
\<close>

definition dict_subscript :: "('k \<times> 'v) list \<Rightarrow> 'k \<Rightarrow> py_error + 'v" where
  "dict_subscript d k = (case map_of d k of None \<Rightarrow> Inl KeyError | Some v \<Rightarrow> Inr v)"

definition dict_get :: "('k \<times> 'v) list \<Rightarrow> 'k \<Rightarrow> 'v \<Rightarrow> 'v" where
  "dict_get d k dflt = (case map_of d k of None \<Rightarrow> dflt | Some v \<Rightarrow> v)"

text \<open>
  Strings are lists of ASCII characters, and \<^verbatim>\<open>str.lower\<close> maps the 26 capital
  letters to their small forms and leaves every other character as it is.
\<close>

definition lower_char :: "char \<Rightarrow> char" where
  "lower_char c =
     (case map_of (zip ''ABCDEFGHIJKLMNOPQRSTUVWXYZ'' ''abcdefghijklmnopqrstuvwxyz'') c of
        None \<Rightarrow> c
      | Some l \<Rightarrow> l)"

definition lower :: "string \<Rightarrow> string" where
  "lower s = map lower_char s"

section \<open>Repair cost estimator (utils.py)\<close>

text \<open>
  \<^verbatim>\<open>LABOR_RATE\<close> and \<^verbatim>\<open>MATERIAL_RATE\<close> are module constants read from the
  environment when the module is loaded, with the defaults 70 and 50.
\<close>

record rates =
  LABOR_RATE :: real
  MATERIAL_RATE :: real

definition default_rates :: rates where
  "default_rates = \<lparr>LABOR_RATE = 70, MATERIAL_RATE = 50\<rparr>"

record profile =
  base_hours :: real
  material_factor :: real

definition TYPE_COMPLEXITY :: "(string \<times> profile) list" where
  "TYPE_COMPLEXITY =
     [(''scratch'', \<lparr>base_hours = 0.8, material_factor = 0.5\<rparr>),
      (''scratches'', \<lparr>base_hours = 0.8, material_factor = 0.5\<rparr>),
      (''paint'', \<lparr>base_hours = 1.0, material_factor = 0.7\<rparr>),
      (''dent'', \<lparr>base_hours = 1.5, material_factor = 1.0\<rparr>),
      (''ding'', \<lparr>base_hours = 1.2, material_factor = 0.8\<rparr>),
      (''crack'', \<lparr>base_hours = 1.1, material_factor = 1.2\<rparr>),
      (''glass shatter'', \<lparr>base_hours = 2.2, material_factor = 1.6\<rparr>),
      (''lamp broken'', \<lparr>base_hours = 1.3, material_factor = 1.1\<rparr>),
      (''tire flat'', \<lparr>base_hours = 1.0, material_factor = 0.9\<rparr>),
      (''broken'', \<lparr>base_hours = 1.8, material_factor = 1.4\<rparr>),
      (''default'', \<lparr>base_hours = 1.0, material_factor = 0.9\<rparr>)]"

definition SEVERITY_LOAD :: "(string \<times> real) list" where
  "SEVERITY_LOAD =
     [(''low'', 0.7), (''medium'', 1.0), (''high'', 1.5), (''unknown'', 0.85)]"

text \<open>
  The local variables of \<^verbatim>\<open>estimate_repair_details\<close>, in the order the function
  computes them: the two table lookups, then the arithmetic of the estimate.
\<close>

record derivation =
  dv_profile :: profile
  dv_severity_factor :: real
  dv_effort_multiplier :: real
  dv_confidence_factor :: real
  dv_labor_hours :: real
  dv_material_units :: real
  dv_labor_cost :: real
  dv_material_cost :: real
  dv_overhead_cost :: real
  dv_raw_total :: real
  dv_total_cost :: int

definition repair_derivation :: "rates \<Rightarrow> profile \<Rightarrow> real \<Rightarrow> real \<Rightarrow> real \<Rightarrow> derivation" where
  "repair_derivation r prof severity_factor area_ratio confidence =
     (let effort_multiplier = max 0.6 (min 2.5 (0.9 + area_ratio * 5));
          confidence_factor = max 0.55 (min 1.1 (0.75 + confidence * 0.35));
          labor_hours = base_hours prof * severity_factor * effort_multiplier;
          material_units = material_factor prof * (0.7 + effort_multiplier * 0.5);
          labor_cost = LABOR_RATE r * labor_hours;
          material_cost = MATERIAL_RATE r * material_units;
          overhead_cost = 0.15 * (labor_cost + material_cost);
          raw_total = (labor_cost + material_cost + overhead_cost) * confidence_factor;
          total_cost = py_round (raw_total / 10) * 10
      in \<lparr>dv_profile = prof,
          dv_severity_factor = severity_factor,
          dv_effort_multiplier = effort_multiplier,
          dv_confidence_factor = confidence_factor,
          dv_labor_hours = labor_hours,
          dv_material_units = material_units,
          dv_labor_cost = labor_cost,
          dv_material_cost = material_cost,
          dv_overhead_cost = overhead_cost,
          dv_raw_total = raw_total,
          dv_total_cost = total_cost\<rparr>)"

text \<open>
  The body of \<^verbatim>\<open>estimate_repair_details\<close> up to its return statement. The default
  arguments of both \<^verbatim>\<open>get\<close> calls are subscripts, evaluated before the call.
\<close>

definition estimate_locals ::
  "rates \<Rightarrow> string \<Rightarrow> string \<Rightarrow> real \<Rightarrow> real \<Rightarrow> py_error + derivation" where
  "estimate_locals r damage_type severity area_ratio confidence =
     (case dict_subscript TYPE_COMPLEXITY ''default'' of
        Inl e \<Rightarrow> Inl e
      | Inr default_profile \<Rightarrow>
     (case dict_subscript SEVERITY_LOAD ''unknown'' of
        Inl e \<Rightarrow> Inl e
      | Inr unknown_load \<Rightarrow>
          Inr (repair_derivation r
                 (dict_get TYPE_COMPLEXITY (lower damage_type) default_profile)
                 (dict_get SEVERITY_LOAD severity unknown_load)
                 area_ratio confidence)))"

record repair_details =
  rd_damage_type :: string
  rd_severity :: string
  rd_area_ratio :: real
  rd_labor_hours :: real
  rd_material_units :: real
  rd_labor_cost :: real
  rd_material_cost :: real
  rd_overhead_cost :: real
  rd_confidence_factor :: real
  rd_total_cost :: int

definition estimate_repair_details ::
  "rates \<Rightarrow> string \<Rightarrow> string \<Rightarrow> real \<Rightarrow> real \<Rightarrow> py_error + repair_details" where
  "estimate_repair_details r damage_type severity area_ratio confidence =
     (case estimate_locals r damage_type severity area_ratio confidence of
        Inl e \<Rightarrow> Inl e
      | Inr v \<Rightarrow>
          Inr \<lparr>rd_damage_type = damage_type,
               rd_severity = severity,
               rd_area_ratio = py_round_nd area_ratio 4,
               rd_labor_hours = py_round_nd (dv_labor_hours v) 2,
               rd_material_units = py_round_nd (dv_material_units v) 2,
               rd_labor_cost = py_round_nd (dv_labor_cost v) 2,
               rd_material_cost = py_round_nd (dv_material_cost v) 2,
               rd_overhead_cost = py_round_nd (dv_overhead_cost v) 2,
               rd_confidence_factor = py_round_nd (dv_confidence_factor v) 2,
               rd_total_cost = dv_total_cost v\<rparr>)"

definition get_repair_cost :: "rates \<Rightarrow> string \<Rightarrow> string \<Rightarrow> real \<Rightarrow> real \<Rightarrow> py_error + int" where
  "get_repair_cost r damage_type severity area_ratio confidence =
     (case estimate_repair_details r damage_type severity area_ratio confidence of
        Inl e \<Rightarrow> Inl e
      | Inr d \<Rightarrow> Inr (rd_total_cost d))"

section \<open>Detection records\<close>

text \<open>
  One dict of the list returned by \<^verbatim>\<open>analyze_image_bytes\<close>; the keys
  \<^verbatim>\<open>class\<close>, \<^verbatim>\<open>type\<close>, \<^verbatim>\<open>conf\<close>, ... carry the prefix \<open>det_\<close>.
\<close>

record detection =
  det_class :: string
  det_type :: string
  det_conf :: real
  det_confidence :: real
  det_x :: real
  det_y :: real
  det_width :: real
  det_height :: real
  det_area_ratio :: real
  det_severity :: string
  det_repair_cost :: int
  det_repair_details :: repair_details

section \<open>Cross-image damage matcher (compare_damage.py)\<close>

type_synonym box = "real \<times> real \<times> real \<times> real"

definition det_to_xyxy :: "detection \<Rightarrow> box" where
  "det_to_xyxy det =
     (let x = det_x det; y = det_y det; w = det_width det; h = det_height det
      in (x, y, x + w, y + h))"

definition iou :: "box \<Rightarrow> box \<Rightarrow> real" where
  "iou box_a box_b =
     (case box_a of (ax1, ay1, ax2, ay2) \<Rightarrow>
      case box_b of (bx1, by1, bx2, by2) \<Rightarrow>
        let inter_x1 = max ax1 bx1;
            inter_y1 = max ay1 by1;
            inter_x2 = min ax2 bx2;
            inter_y2 = min ay2 by2;
            inter_w = max 0 (inter_x2 - inter_x1);
            inter_h = max 0 (inter_y2 - inter_y1);
            inter_area = inter_w * inter_h;
            area_a = max 0 (ax2 - ax1) * max 0 (ay2 - ay1);
            area_b = max 0 (bx2 - bx1) * max 0 (by2 - by1);
            denom = area_a + area_b - inter_area
        in if denom > 0 then inter_area / denom else 0)"

text \<open>\<^verbatim>\<open>d.setdefault(k, []).append(v)\<close> on a dict of lists.\<close>

definition setdefault_append :: "('k \<rightharpoonup> 'v list) \<Rightarrow> 'k \<Rightarrow> 'v \<Rightarrow> ('k \<rightharpoonup> 'v list)" where
  "setdefault_append d k v = d(k \<mapsto> (case d k of None \<Rightarrow> [] | Some l \<Rightarrow> l) @ [v])"

text \<open>The inner loop over the candidates, which leaves at the first match.\<close>

fun matched_loop :: "box \<Rightarrow> real \<Rightarrow> detection list \<Rightarrow> bool" where
  "matched_loop ret_box iou_threshold [] = False"
| "matched_loop ret_box iou_threshold (cand # candidates) =
     (if iou ret_box (det_to_xyxy cand) \<ge> iou_threshold then True
      else matched_loop ret_box iou_threshold candidates)"

definition find_new_damages :: "detection list \<Rightarrow> detection list \<Rightarrow> real \<Rightarrow> detection list" where
  "find_new_damages pickup_detections return_detections iou_threshold =
     (let pickup_by_class =
            foldl (\<lambda>d det. setdefault_append d (det_class det) det) Map.empty
              pickup_detections
      in foldl
           (\<lambda>new_items ret_det.
              let candidates =
                    (case pickup_by_class (det_class ret_det) of None \<Rightarrow> [] | Some l \<Rightarrow> l);
                  ret_box = det_to_xyxy ret_det;
                  matched = matched_loop ret_box iou_threshold candidates
              in if \<not> matched then new_items @ [ret_det] else new_items)
           [] return_detections)"

text \<open>
  The quantities the description of IoU names, as \<^verbatim>\<open>_iou\<close> computes them: the area
  of a box and the area of the intersection of two boxes.
\<close>

definition box_area :: "box \<Rightarrow> real" where
  "box_area b = (case b of (x1, y1, x2, y2) \<Rightarrow> max 0 (x2 - x1) * max 0 (y2 - y1))"

definition inter_area :: "box \<Rightarrow> box \<Rightarrow> real" where
  "inter_area a b =
     (case a of (ax1, ay1, ax2, ay2) \<Rightarrow>
      case b of (bx1, by1, bx2, by2) \<Rightarrow>
        max 0 (min ax2 bx2 - max ax1 bx1) * max 0 (min ay2 by2 - max ay1 by1))"

text \<open>
  The criterion of the matcher: some pickup detection of the same class overlaps the
  return detection with IoU at least the threshold.
\<close>

definition has_match :: "detection list \<Rightarrow> real \<Rightarrow> detection \<Rightarrow> bool" where
  "has_match pickup t x =
     (\<exists>c\<in>set pickup. det_class c = det_class x \<and> t \<le> iou (det_to_xyxy x) (det_to_xyxy c))"

text \<open>A detection record of a given class and normalized box, for the examples.\<close>

definition example_detection :: "string \<Rightarrow> real \<Rightarrow> real \<Rightarrow> real \<Rightarrow> real \<Rightarrow> detection" where
  "example_detection c x y w h =
     \<lparr>det_class = c, det_type = c, det_conf = 0.9, det_confidence = 90,
      det_x = x, det_y = y, det_width = w, det_height = h,
      det_area_ratio = 0.01, det_severity = ''low'', det_repair_cost = 80,
      det_repair_details =
        \<lparr>rd_damage_type = c, rd_severity = ''low'', rd_area_ratio = 0.01,
         rd_labor_hours = 0.53, rd_material_units = 0.59, rd_labor_cost = 37.24,
         rd_material_cost = 29.38, rd_overhead_cost = 9.99, rd_confidence_factor = 1.06,
         rd_total_cost = 80\<rparr>\<rparr>"


section \<open>Detection normalizer (analyzer.py)\<close>

text \<open>
  The collaborators are parameters. \<^verbatim>\<open>cv2.imdecode\<close> has three outcomes: it
  raises \<^verbatim>\<open>cv2.error\<close> (as it does on an empty buffer), it returns
  \<^verbatim>\<open>None\<close> for data it cannot decode, or it returns the decoded image. The
  detector has a \<^verbatim>\<open>predict\<close> method, which may raise, and a
  \<^verbatim>\<open>names\<close> dict. Of a decoded image only its shape matters here; numpy shapes
  are natural numbers.
\<close>

type_synonym bytes = "8 word list"

record image =
  img_h :: nat
  img_w :: nat
  img_pixels :: "8 word list"

datatype imdecode_result = Cv2Raises | DecodedNone | Decoded image

record boxes =
  boxes_xyxy :: "box list option"
  boxes_conf :: "real list"
  boxes_cls :: "int list"

record yolo_result =
  result_boxes :: "boxes option"

datatype inference_failure = InferenceFailure

record model =
  model_predict :: "image \<Rightarrow> inference_failure + yolo_result list"
  model_names :: "int \<rightharpoonup> string"

text \<open>
  The ways \<^verbatim>\<open>analyze_image_bytes\<close> fails: \<open>Cv2Error\<close> is the exception of
  \<^verbatim>\<open>cv2.imdecode\<close> passing through, \<open>DecodeError\<close> is
  \<^verbatim>\<open>ValueError("Unable to decode image bytes")\<close>, \<open>Detector\<close> is an
  exception of \<^verbatim>\<open>predict\<close>, and \<open>Raised\<close> is an exception of the loop over
  the boxes.
\<close>

datatype analyze_error =
  Cv2Error | DecodeError | Detector inference_failure | Raised py_error

fun str_nat :: "nat \<Rightarrow> string" where
  "str_nat n =
     (if n < 10 then [''0123456789'' ! n]
      else str_nat (n div 10) @ [''0123456789'' ! (n mod 10)])"

definition str_int :: "int \<Rightarrow> string" where
  "str_int i = (if i < 0 then ''-'' @ str_nat (nat (- i)) else str_nat (nat i))"

definition np_index :: "'a list \<Rightarrow> nat \<Rightarrow> py_error + 'a" where
  "np_index a i = (if i < length a then Inr (a ! i) else Inl IndexError)"

definition json_safe :: "repair_details \<Rightarrow> repair_details" where
  "json_safe v = v"

text \<open>The body of the loop over the boxes, for one box with its confidence and class id.\<close>

definition normalize_box ::
  "rates \<Rightarrow> (int \<rightharpoonup> string) \<Rightarrow> nat \<Rightarrow> nat \<Rightarrow> box \<Rightarrow> real \<Rightarrow> int \<Rightarrow> py_error + detection" where
  "normalize_box r names w h b conf cls_id =
     (case b of (x_min, y_min, x_max, y_max) \<Rightarrow>
        let class_name =
              (case names cls_id of None \<Rightarrow> ''class_'' @ str_int cls_id | Some n \<Rightarrow> n);
            width = x_max - x_min;
            height = y_max - y_min
        in (case get_damage_severity width height (real w) (real h) of
              (severity, area_ratio) \<Rightarrow>
           (case estimate_repair_details r class_name severity area_ratio conf of
              Inl e \<Rightarrow> Inl e
            | Inr repair \<Rightarrow>
                if w = 0 then Inl ZeroDivisionError
                else if h = 0 then Inl ZeroDivisionError
                else
                  (let norm_x = x_min / real w;
                       norm_y = y_min / real h;
                       norm_w = width / real w;
                       norm_h = height / real h
                   in Inr \<lparr>det_class = class_name,
                           det_type = class_name,
                           det_conf = py_round_nd conf 4,
                           det_confidence = py_round_nd (conf * 100) 2,
                           det_x = py_round_nd norm_x 4,
                           det_y = py_round_nd norm_y 4,
                           det_width = py_round_nd norm_w 4,
                           det_height = py_round_nd norm_h 4,
                           det_area_ratio = py_round_nd area_ratio 4,
                           det_severity = severity,
                           det_repair_cost = rd_total_cost repair,
                           det_repair_details = json_safe repair\<rparr>))))"

text \<open>The loop \<^verbatim>\<open>for i in range(len(xyxy))\<close>, over the list of indices.\<close>

fun boxes_loop ::
  "rates \<Rightarrow> (int \<rightharpoonup> string) \<Rightarrow> nat \<Rightarrow> nat \<Rightarrow> box list \<Rightarrow> real list \<Rightarrow> int list
     \<Rightarrow> nat list \<Rightarrow> detection list \<Rightarrow> py_error + detection list" where
  "boxes_loop r names w h xyxy confidences classes [] detections = Inr detections"
| "boxes_loop r names w h xyxy confidences classes (i # is) detections =
     (case np_index xyxy i of
        Inl e \<Rightarrow> Inl e
      | Inr b \<Rightarrow>
     (case np_index confidences i of
        Inl e \<Rightarrow> Inl e
      | Inr conf \<Rightarrow>
     (case np_index classes i of
        Inl e \<Rightarrow> Inl e
      | Inr cls_id \<Rightarrow>
     (case normalize_box r names w h b conf cls_id of
        Inl e \<Rightarrow> Inl e
      | Inr d \<Rightarrow> boxes_loop r names w h xyxy confidences classes is (detections @ [d])))))"

definition analyze_image_bytes ::
  "rates \<Rightarrow> (bytes \<Rightarrow> imdecode_result) \<Rightarrow> model \<Rightarrow> bytes
     \<Rightarrow> analyze_error + detection list" where
  "analyze_image_bytes r imdecode m image_bytes =
     (case imdecode image_bytes of
        Cv2Raises \<Rightarrow> Inl Cv2Error
      | DecodedNone \<Rightarrow> Inl DecodeError
      | Decoded img \<Rightarrow>
     (case model_predict m img of
        Inl f \<Rightarrow> Inl (Detector f)
      | Inr results \<Rightarrow>
     (case results of
        [] \<Rightarrow> Inr []
      | result # _ \<Rightarrow>
     (case result_boxes result of
        None \<Rightarrow> Inr []
      | Some bx \<Rightarrow>
     (case boxes_xyxy bx of
        None \<Rightarrow> Inr []
      | Some xyxy \<Rightarrow>
     (case boxes_loop r (model_names m) (img_w img) (img_h img) xyxy
             (boxes_conf bx) (boxes_cls bx) [0..<length xyxy] [] of
        Inl e \<Rightarrow> Inl (Raised e)
      | Inr detections \<Rightarrow> Inr detections))))))"

text \<open>
  The raw detections of a detector output, as three parallel arrays: those of the boxes of
  the first result, and none when there is no result or it has no boxes.
\<close>

definition raw_detections :: "yolo_result list \<Rightarrow> box list \<times> real list \<times> int list" where
  "raw_detections results =
     (case results of
        [] \<Rightarrow> ([], [], [])
      | result # _ \<Rightarrow>
     (case result_boxes result of
        None \<Rightarrow> ([], [], [])
      | Some bx \<Rightarrow>
     (case boxes_xyxy bx of
        None \<Rightarrow> ([], [], [])
      | Some xyxy \<Rightarrow> (xyxy, boxes_conf bx, boxes_cls bx))))"

text \<open>
  A raw box lies within the image when its corners are ordered and inside
  [0, W] x [0, H]; a detection record has a unit box when its normalized x, y, width and
  height all lie in [0, 1].
\<close>

definition box_within :: "box \<Rightarrow> nat \<Rightarrow> nat \<Rightarrow> bool" where
  "box_within b w h =
     (case b of (x_min, y_min, x_max, y_max) \<Rightarrow>
        0 \<le> x_min \<and> x_min \<le> x_max \<and> x_max \<le> real w
        \<and> 0 \<le> y_min \<and> y_min \<le> y_max \<and> y_max \<le> real h)"

definition unit_box :: "detection \<Rightarrow> bool" where
  "unit_box d =
     (0 \<le> det_x d \<and> det_x d \<le> 1 \<and> 0 \<le> det_y d \<and> det_y d \<le> 1
      \<and> 0 \<le> det_width d \<and> det_width d \<le> 1 \<and> 0 \<le> det_height d \<and> det_height d \<le> 1)"

text \<open>
  The errors of the decoding step, raised before the detector is called: the image is
  invalid.
\<close>

definition invalid_image :: "analyze_error \<Rightarrow> bool" where
  "invalid_image e = (e = Cv2Error \<or> e = DecodeError)"

text \<open>
  Collaborators for the examples: a decoder that always returns the same image, a decoder
  that raises on an empty buffer, decodes data starting with the byte 255 to a
  1000 x 1000 image and returns \<^verbatim>\<open>None\<close> for anything else, and detectors with
  fixed answers.
\<close>

definition decode_as :: "image \<Rightarrow> bytes \<Rightarrow> imdecode_result" where
  "decode_as img image_bytes = Decoded img"


definition fixed_detector :: "(int \<rightharpoonup> string) \<Rightarrow> yolo_result list \<Rightarrow> model" where
  "fixed_detector names results =
     \<lparr>model_predict = (\<lambda>img. Inr results), model_names = names\<rparr>"


section \<open>Properties of the severity classifier\<close>

text \<open>
  C2. For every box width and height and every image width and height, the classifier
  returns ratio = (max(0,width) * max(0,height)) / max(1, image_width * image_height) and
  decides in order: box pixel area below 1500 gives low; else ratio below
  max(0.04, 2500 / image_area) gives low; else ratio below max(0.12, 8000 / image_area)
  gives medium; else high. A 200 x 200 box on a 1000 x 1000 image has ratio 0.04 and
  severity medium.
\<close>

theorem get_damage_severity_decision:
  "get_damage_severity w h iw ih =
     ((if max 0 w * max 0 h < 1500 then ''low''
       else if max 0 w * max 0 h / max 1 (iw * ih) < max 0.04 (2500 / max 1 (iw * ih))
         then ''low''
       else if max 0 w * max 0 h / max 1 (iw * ih) < max 0.12 (8000 / max 1 (iw * ih))
         then ''medium''
       else ''high''),
      max 0 w * max 0 h / max 1 (iw * ih))
   \<and> get_damage_severity 200 200 1000 1000 = (''medium'', 0.04)"
proof
  show "get_damage_severity 200 200 1000 1000 = (''medium'', 0.04)"
    by (simp add: get_damage_severity_def Let_def)
qed (unfold get_damage_severity_def Let_def, rule refl)

text \<open>
  C10. When the image area is below 1500 pixels and the box is no wider and no higher
  than the image, the severity is low: the box area is below the 1500 pixel override.
\<close>

theorem get_damage_severity_small_image:
  assumes "iw * ih < 1500" and "w \<le> iw" and "h \<le> ih"
  shows "fst (get_damage_severity w h iw ih) = ''low''"
proof -
  have "max 0 w * max 0 h < 1500"
  proof (cases "0 \<le> w \<and> 0 \<le> h")
    case True
    then have "max 0 w * max 0 h = w * h" by (simp add: max_def)
    also have "w * h \<le> iw * ih"
      using True assms(2,3) by (intro mult_mono) auto
    finally show ?thesis using assms(1) by linarith
  next
    case False
    then have "max 0 w = 0 \<or> max 0 h = 0" by (auto simp: max_def)
    then have "max 0 w * max 0 h = 0" by auto
    then show ?thesis by linarith
  qed
  then show ?thesis by (simp add: get_damage_severity_def Let_def)
qed

theorem get_damage_severity_small_image_witness:
  "(30::real) * 40 < 1500 \<and> (30::real) \<le> 30 \<and> (40::real) \<le> 40
   \<and> fst (get_damage_severity 30 40 30 40) = ''low''"
  using get_damage_severity_small_image [of 30 40 30 40] by simp

section \<open>Properties of the repair cost estimator\<close>

lemma py_round_ge: "of_int k \<le> x \<Longrightarrow> k \<le> py_round x"
proof -
  assume "of_int k \<le> x"
  then have "k \<le> \<lfloor>x\<rfloor>" by (simp add: le_floor_iff)
  then show ?thesis by (simp add: py_round_def Let_def)
qed

lemma py_round_le: "x \<le> of_int k \<Longrightarrow> py_round x \<le> k"
proof (cases "x = of_int k")
  case True
  then show ?thesis by (simp add: py_round_def Let_def)
next
  case False
  assume "x \<le> of_int k"
  with False have "x < of_int k" by simp
  then have "\<lfloor>x\<rfloor> < k" by (simp add: floor_less_iff)
  then show ?thesis by (simp add: py_round_def Let_def)
qed

lemma py_round_nd_bounds:
  assumes "of_int a / 10 ^ n \<le> x" and "x \<le> of_int b / 10 ^ n"
  shows "of_int a / 10 ^ n \<le> py_round_nd x n \<and> py_round_nd x n \<le> of_int b / 10 ^ n"
proof -
  have "of_int a \<le> x * 10 ^ n" using assms(1) by (simp add: pos_divide_le_eq)
  then have a: "a \<le> py_round (x * 10 ^ n)" by (rule py_round_ge)
  have "x * 10 ^ n \<le> of_int b" using assms(2) by (simp add: pos_le_divide_eq)
  then have b: "py_round (x * 10 ^ n) \<le> b" by (rule py_round_le)
  show ?thesis using a b by (simp add: py_round_nd_def divide_right_mono)
qed

lemma dict_subscript_default:
  "dict_subscript TYPE_COMPLEXITY ''default'' = Inr \<lparr>base_hours = 1.0, material_factor = 0.9\<rparr>"
  by (simp add: dict_subscript_def TYPE_COMPLEXITY_def)

lemma dict_subscript_unknown: "dict_subscript SEVERITY_LOAD ''unknown'' = Inr 0.85"
  by (simp add: dict_subscript_def SEVERITY_LOAD_def)

lemma estimate_locals_eq:
  "estimate_locals r dt sev ar conf =
     Inr (repair_derivation r
            (dict_get TYPE_COMPLEXITY (lower dt) \<lparr>base_hours = 1.0, material_factor = 0.9\<rparr>)
            (dict_get SEVERITY_LOAD sev 0.85) ar conf)"
  by (simp add: estimate_locals_def dict_subscript_default dict_subscript_unknown)

lemma profile_nonneg:
  "0 \<le> base_hours (dict_get TYPE_COMPLEXITY k \<lparr>base_hours = 1.0, material_factor = 0.9\<rparr>)
   \<and> 0 \<le> material_factor (dict_get TYPE_COMPLEXITY k \<lparr>base_hours = 1.0, material_factor = 0.9\<rparr>)"
  by (simp add: dict_get_def TYPE_COMPLEXITY_def)

lemma severity_load_nonneg: "0 \<le> dict_get SEVERITY_LOAD k 0.85"
  by (simp add: dict_get_def SEVERITY_LOAD_def)


lemma repair_derivation_nonneg:
  assumes "0 \<le> LABOR_RATE r" and "0 \<le> MATERIAL_RATE r"
    and "0 \<le> base_hours p" and "0 \<le> material_factor p" and "0 \<le> sf"
  shows "0 \<le> dv_raw_total (repair_derivation r p sf ar conf)"
proof -
  define em :: real where "em = max 0.6 (min 2.5 (0.9 + ar * 5))"
  define cf :: real where "cf = max 0.55 (min 1.1 (0.75 + conf * 0.35))"
  define lc where "lc = LABOR_RATE r * (base_hours p * sf * em)"
  define mc where "mc = MATERIAL_RATE r * (material_factor p * (0.7 + em * 0.5))"
  have em: "0 \<le> em" and cf: "0 \<le> cf" by (simp_all add: em_def cf_def)
  have lc: "0 \<le> lc" unfolding lc_def using assms em by simp
  have mc: "0 \<le> mc" unfolding mc_def using assms em by simp
  have "0 \<le> lc + mc + 0.15 * (lc + mc)" using lc mc by simp
  then have "0 \<le> (lc + mc + 0.15 * (lc + mc)) * cf"
    using cf by (rule mult_nonneg_nonneg)
  then show ?thesis
    by (simp add: repair_derivation_def Let_def em_def cf_def lc_def mc_def)
qed

lemma repair_derivation_confidence_factor:
  "0.55 \<le> dv_confidence_factor (repair_derivation r p sf ar conf)
   \<and> dv_confidence_factor (repair_derivation r p sf ar conf) \<le> 1.1"
  by (simp add: repair_derivation_def Let_def max_def min_def)

lemma repair_derivation_total_cost:
  "dv_total_cost (repair_derivation r p sf ar conf)
     = py_round (dv_raw_total (repair_derivation r p sf ar conf) / 10) * 10"
  by (simp add: repair_derivation_def Let_def)

text \<open>
  C4. With non-negative labor and material rates, for every damage type, severity label,
  area ratio and confidence the estimator returns an estimate whose total cost is a
  non-negative integer and a multiple of 10, and whose confidence factor lies in
  [0.55, 1.1].
\<close>

theorem estimate_repair_details_total_cost:
  assumes "0 \<le> LABOR_RATE r" and "0 \<le> MATERIAL_RATE r"
  shows "\<exists>d. estimate_repair_details r dt sev ar conf = Inr d
           \<and> 0 \<le> rd_total_cost d \<and> rd_total_cost d mod 10 = 0
           \<and> 0.55 \<le> rd_confidence_factor d \<and> rd_confidence_factor d \<le> 1.1"
proof -
  define p where "p = dict_get TYPE_COMPLEXITY (lower dt) \<lparr>base_hours = 1.0, material_factor = 0.9\<rparr>"
  define sf :: real where "sf = dict_get SEVERITY_LOAD sev 0.85"
  define v where "v = repair_derivation r p sf ar conf"
  have loc: "estimate_locals r dt sev ar conf = Inr v"
    by (simp only: estimate_locals_eq v_def p_def sf_def)
  have "0 \<le> dv_raw_total v"
    unfolding v_def using assms profile_nonneg [of "lower dt"] severity_load_nonneg [of sev]
    by (intro repair_derivation_nonneg) (simp_all add: p_def sf_def)
  then have "of_int 0 \<le> dv_raw_total v / 10" by simp
  then have "0 \<le> py_round (dv_raw_total v / 10)" by (rule py_round_ge)
  then have tc: "0 \<le> dv_total_cost v" "dv_total_cost v mod 10 = 0"
    by (simp_all add: v_def repair_derivation_total_cost)
  have "of_int 55 / 10 ^ 2 \<le> dv_confidence_factor v"
    and "dv_confidence_factor v \<le> of_int 110 / 10 ^ 2"
    using repair_derivation_confidence_factor [of r p sf ar conf] by (simp_all add: v_def)
  then have "of_int 55 / 10 ^ 2 \<le> py_round_nd (dv_confidence_factor v) 2
      \<and> py_round_nd (dv_confidence_factor v) 2 \<le> of_int 110 / 10 ^ 2"
    by (rule py_round_nd_bounds)
  then have cf: "0.55 \<le> py_round_nd (dv_confidence_factor v) 2"
    "py_round_nd (dv_confidence_factor v) 2 \<le> 1.1" by simp_all
  show ?thesis using tc cf by (simp add: estimate_repair_details_def loc)
qed

theorem estimate_repair_details_total_cost_witness:
  "0 \<le> LABOR_RATE default_rates \<and> 0 \<le> MATERIAL_RATE default_rates
   \<and> (\<exists>d. estimate_repair_details default_rates ''Dent'' ''high'' 0.2 0.5 = Inr d
           \<and> 0 \<le> rd_total_cost d \<and> rd_total_cost d mod 10 = 0
           \<and> 0.55 \<le> rd_confidence_factor d \<and> rd_confidence_factor d \<le> 1.1)"
  using estimate_repair_details_total_cost [of default_rates "''Dent''" "''high''" "0.2" "0.5"]
  by (simp add: default_rates_def)

text \<open>
  C3. With the default rates 70 and 50, the estimate for damage type scratch, severity low,
  area ratio 0.01 and confidence 0.9 computes effort multiplier 0.95, confidence factor
  1.065, labor hours 0.532, material units 0.5875, labor cost 37.24, material cost 29.375,
  overhead cost 9.992 to three decimals, raw total 81.59 to two decimals, and the total
  cost 80, which is the total cost of the returned estimate.
\<close>

theorem estimate_scenario_B:
  "\<exists>v d. estimate_locals default_rates ''scratch'' ''low'' 0.01 0.9 = Inr v
     \<and> dv_effort_multiplier v = 0.95
     \<and> dv_confidence_factor v = 1.065
     \<and> dv_labor_hours v = 0.532
     \<and> dv_material_units v = 0.5875
     \<and> dv_labor_cost v = 37.24
     \<and> dv_material_cost v = 29.375
     \<and> \<bar>dv_overhead_cost v - 9.992\<bar> < 0.0005
     \<and> \<bar>dv_raw_total v - 81.59\<bar> < 0.005
     \<and> dv_total_cost v = 80
     \<and> estimate_repair_details default_rates ''scratch'' ''low'' 0.01 0.9 = Inr d
     \<and> rd_total_cost d = 80"
  by (simp add: estimate_repair_details_def estimate_locals_eq repair_derivation_def
      default_rates_def Let_def py_round_def dict_get_def TYPE_COMPLEXITY_def
      SEVERITY_LOAD_def lower_def lower_char_def)

text \<open>The returned estimate holds the two-decimal roundings of these values.\<close>

lemma estimate_scenario_B_returned:
  "estimate_repair_details default_rates ''scratch'' ''low'' 0.01 0.9 =
     Inr \<lparr>rd_damage_type = ''scratch'', rd_severity = ''low'', rd_area_ratio = 0.01,
          rd_labor_hours = 0.53, rd_material_units = 0.59, rd_labor_cost = 37.24,
          rd_material_cost = 29.38, rd_overhead_cost = 9.99, rd_confidence_factor = 1.06,
          rd_total_cost = 80\<rparr>"
  by (simp add: estimate_repair_details_def estimate_locals_eq repair_derivation_def
      default_rates_def Let_def py_round_def py_round_nd_def dict_get_def TYPE_COMPLEXITY_def
      SEVERITY_LOAD_def lower_def lower_char_def)

text \<open>
  C9. For every damage type and every severity label the estimator returns an estimate and
  raises nothing. The profile is looked up under the lower-cased damage type; a damage
  type that is not in the table gets the default profile (base hours 1.0, material factor
  0.9) and a severity that is not in the table gets the load 0.85 of unknown.
\<close>

theorem estimate_repair_details_total:
  "\<exists>v d. estimate_locals r dt sev ar conf = Inr v
     \<and> estimate_repair_details r dt sev ar conf = Inr d
     \<and> dv_profile v = dict_get TYPE_COMPLEXITY (lower dt) \<lparr>base_hours = 1.0, material_factor = 0.9\<rparr>
     \<and> (lower dt \<notin> fst ` set TYPE_COMPLEXITY
          \<longrightarrow> dv_profile v = \<lparr>base_hours = 1.0, material_factor = 0.9\<rparr>)
     \<and> (sev \<notin> fst ` set SEVERITY_LOAD \<longrightarrow> dv_severity_factor v = 0.85)
     \<and> rd_damage_type d = dt \<and> rd_severity d = sev
     \<and> rd_total_cost d = dv_total_cost v"
proof -
  have "lower dt \<notin> fst ` set TYPE_COMPLEXITY \<Longrightarrow>
        dict_get TYPE_COMPLEXITY (lower dt) p0 = p0" for p0
    by (simp add: dict_get_def map_of_eq_None_iff [THEN iffD2])
  moreover have "sev \<notin> fst ` set SEVERITY_LOAD \<Longrightarrow> dict_get SEVERITY_LOAD sev l0 = l0" for l0 :: real
    by (simp add: dict_get_def map_of_eq_None_iff [THEN iffD2])
  ultimately show ?thesis
    by (simp add: estimate_repair_details_def estimate_locals_eq repair_derivation_def Let_def)
qed

theorem estimate_repair_details_total_witness:
  "lower ''Rust'' \<notin> fst ` set TYPE_COMPLEXITY \<and> ''severe'' \<notin> fst ` set SEVERITY_LOAD
   \<and> (\<exists>v d. estimate_locals default_rates ''Rust'' ''severe'' 0.3 0.8 = Inr v
     \<and> estimate_repair_details default_rates ''Rust'' ''severe'' 0.3 0.8 = Inr d
     \<and> dv_profile v = \<lparr>base_hours = 1.0, material_factor = 0.9\<rparr>
     \<and> dv_severity_factor v = 0.85
     \<and> rd_damage_type d = ''Rust'' \<and> rd_severity d = ''severe'')"
proof -
  have a: "lower ''Rust'' \<notin> fst ` set TYPE_COMPLEXITY"
    by (simp add: lower_def lower_char_def TYPE_COMPLEXITY_def)
  have b: "''severe'' \<notin> fst ` set SEVERITY_LOAD"
    by (simp add: SEVERITY_LOAD_def)
  show ?thesis
    using a b estimate_repair_details_total [of default_rates "''Rust''" "''severe''" "0.3" "0.8"]
    by auto
qed

section \<open>Properties of the damage matcher\<close>

lemma pickup_by_class_lookup:
  "(case foldl (\<lambda>d det. setdefault_append d (det_class det) det) m ps c of
      None \<Rightarrow> [] | Some l \<Rightarrow> l)
   = (case m c of None \<Rightarrow> [] | Some l \<Rightarrow> l) @ filter (\<lambda>p. det_class p = c) ps"
  by (induction ps arbitrary: m) (simp_all add: setdefault_append_def)

lemma matched_loop_iff:
  "matched_loop b t cs \<longleftrightarrow> (\<exists>c\<in>set cs. t \<le> iou b (det_to_xyxy c))"
  by (induction cs) simp_all

lemma new_items_loop:
  "foldl (\<lambda>new_items x. if P x then new_items @ [x] else new_items) acc xs
     = acc @ filter P xs"
  by (induction xs arbitrary: acc) simp_all

lemma find_new_damages_filter:
  "find_new_damages pickup ret t = filter (\<lambda>x. \<not> has_match pickup t x) ret"
proof -
  have "matched_loop (det_to_xyxy x) t
          (case foldl (\<lambda>d det. setdefault_append d (det_class det) det) Map.empty pickup
                  (det_class x) of None \<Rightarrow> [] | Some l \<Rightarrow> l)
        \<longleftrightarrow> has_match pickup t x" for x
    by (auto simp: pickup_by_class_lookup matched_loop_iff has_match_def)
  then show ?thesis
    by (simp add: find_new_damages_def Let_def new_items_loop)
qed

text \<open>
  C1. For all pickup and return detections and every threshold, the matcher returns the
  return detections, in their order and unchanged, for which no pickup detection of the
  same class name has IoU at least the threshold with them. An empty pickup list gives
  all return detections and an empty return list gives the empty list.
\<close>

theorem find_new_damages_subsequence:
  "find_new_damages pickup ret t =
     filter (\<lambda>x. \<not> (\<exists>c\<in>set pickup. det_class c = det_class x
                         \<and> t \<le> iou (det_to_xyxy x) (det_to_xyxy c))) ret
   \<and> subseq (find_new_damages pickup ret t) ret
   \<and> find_new_damages [] ret t = ret
   \<and> find_new_damages pickup [] t = []"
  by (simp add: find_new_damages_filter has_match_def)

theorem find_new_damages_subsequence_witness:
  "find_new_damages [example_detection ''scratch'' 0.1 0.1 0.1 0.1]
       [example_detection ''scratch'' 0.1 0.1 0.1 0.1,
        example_detection ''dent'' 0.1 0.1 0.1 0.1] 0.3
     = [example_detection ''dent'' 0.1 0.1 0.1 0.1]
   \<and> find_new_damages []
       [example_detection ''scratch'' 0.1 0.1 0.1 0.1,
        example_detection ''dent'' 0.1 0.1 0.1 0.1] 0.3
     = [example_detection ''scratch'' 0.1 0.1 0.1 0.1,
        example_detection ''dent'' 0.1 0.1 0.1 0.1]
   \<and> find_new_damages [example_detection ''scratch'' 0.1 0.1 0.1 0.1] [] 0.3 = []"
  using find_new_damages_subsequence
    [of "[example_detection ''scratch'' 0.1 0.1 0.1 0.1]"
        "[example_detection ''scratch'' 0.1 0.1 0.1 0.1,
          example_detection ''dent'' 0.1 0.1 0.1 0.1]" "0.3"]
    find_new_damages_subsequence
    [of "[]"
        "[example_detection ''scratch'' 0.1 0.1 0.1 0.1,
          example_detection ''dent'' 0.1 0.1 0.1 0.1]" "0.3"]
    find_new_damages_subsequence
    [of "[example_detection ''scratch'' 0.1 0.1 0.1 0.1]" "[]" "0.3"]
  by (simp add: example_detection_def det_to_xyxy_def iou_def Let_def)

lemma filter_length_mono:
  "(\<And>x. x \<in> set xs \<Longrightarrow> P x \<Longrightarrow> Q x) \<Longrightarrow> length (filter P xs) \<le> length (filter Q xs)"
  by (induction xs) auto

lemma filter_subseq_mono:
  "(\<And>x. x \<in> set xs \<Longrightarrow> P x \<Longrightarrow> Q x) \<Longrightarrow> subseq (filter P xs) (filter Q xs)"
  by (induction xs) auto

text \<open>
  C8. The matcher is a function of its three arguments, so equal arguments give equal
  results; and for thresholds t1 \<le> t2 the result at t2 is at least as long as the
  result at t1, which is a subsequence of it.
\<close>

theorem find_new_damages_monotone:
  assumes "t1 \<le> t2"
  shows "length (find_new_damages pickup ret t1) \<le> length (find_new_damages pickup ret t2)
    \<and> subseq (find_new_damages pickup ret t1) (find_new_damages pickup ret t2)
    \<and> (\<forall>pickup' ret' t'. pickup' = pickup \<and> ret' = ret \<and> t' = t1 \<longrightarrow>
          find_new_damages pickup' ret' t' = find_new_damages pickup ret t1)"
proof -
  have "\<not> has_match pickup t1 x \<Longrightarrow> \<not> has_match pickup t2 x" for x
    using assms by (fastforce simp: has_match_def)
  then show ?thesis
    by (simp add: find_new_damages_filter filter_length_mono filter_subseq_mono)
qed

theorem find_new_damages_monotone_witness:
  "(0.3::real) \<le> 0.5
   \<and> length (find_new_damages [example_detection ''scratch'' 0.1 0.1 0.1 0.1]
               [example_detection ''scratch'' 0.15 0.1 0.1 0.1] 0.3)
     \<le> length (find_new_damages [example_detection ''scratch'' 0.1 0.1 0.1 0.1]
               [example_detection ''scratch'' 0.15 0.1 0.1 0.1] 0.5)
   \<and> find_new_damages [example_detection ''scratch'' 0.1 0.1 0.1 0.1]
        [example_detection ''scratch'' 0.15 0.1 0.1 0.1] 0.3 = []
   \<and> find_new_damages [example_detection ''scratch'' 0.1 0.1 0.1 0.1]
        [example_detection ''scratch'' 0.15 0.1 0.1 0.1] 0.5
      = [example_detection ''scratch'' 0.15 0.1 0.1 0.1]"
proof -
  have le: "(0.3::real) \<le> 0.5" by simp
  have a: "find_new_damages [example_detection ''scratch'' 0.1 0.1 0.1 0.1]
        [example_detection ''scratch'' 0.15 0.1 0.1 0.1] 0.3 = []"
    by (simp add: find_new_damages_filter has_match_def example_detection_def
        det_to_xyxy_def iou_def Let_def)
  have b: "find_new_damages [example_detection ''scratch'' 0.1 0.1 0.1 0.1]
        [example_detection ''scratch'' 0.15 0.1 0.1 0.1] 0.5
      = [example_detection ''scratch'' 0.15 0.1 0.1 0.1]"
    by (simp add: find_new_damages_filter has_match_def example_detection_def
        det_to_xyxy_def iou_def Let_def)
  from find_new_damages_monotone [OF le] a b le show ?thesis by blast
qed

section \<open>Properties of IoU\<close>

lemma iou_eq:
  "iou a b =
     (if box_area a + box_area b - inter_area a b > 0
      then inter_area a b / (box_area a + box_area b - inter_area a b) else 0)"
  by (cases a, cases b) (simp only: iou_def box_area_def inter_area_def Let_def prod.case)

lemma inter_area_commute: "inter_area a b = inter_area b a"
proof -
  obtain ax1 ay1 ax2 ay2 where a: "a = (ax1, ay1, ax2, ay2)" by (cases a)
  obtain bx1 by1 bx2 by2 where b: "b = (bx1, by1, bx2, by2)" by (cases b)
  have "min ax2 bx2 = min bx2 ax2" and "max ax1 bx1 = max bx1 ax1"
    and "min ay2 by2 = min by2 ay2" and "max ay1 by1 = max by1 ay1"
    by (rule min.commute max.commute)+
  then show ?thesis by (simp only: a b inter_area_def prod.case)
qed

lemma inter_area_self: "inter_area b b = box_area b"
  by (cases b) (simp only: inter_area_def box_area_def prod.case max.idem min.idem)

lemma box_area_positive:
  assumes "x1 < x2" and "y1 < y2"
  shows "0 < box_area (x1, y1, x2, y2)"
proof -
  have "max 0 (x2 - x1) = x2 - x1" and "max 0 (y2 - y1) = y2 - y1"
    using assms by (simp_all add: max_def)
  then show ?thesis using assms by (simp add: box_area_def)
qed

text \<open>
  C7. The IoU of a box of positive width and height with itself is 1; IoU is symmetric;
  and IoU is 0 whenever the denominator, area of the first box plus area of the second
  minus the intersection area, is at most 0.
\<close>

theorem iou_properties:
  "(ax1 < ax2 \<and> ay1 < ay2 \<longrightarrow> iou (ax1, ay1, ax2, ay2) (ax1, ay1, ax2, ay2) = 1)
   \<and> iou a b = iou b a
   \<and> (box_area a + box_area b - inter_area a b \<le> 0 \<longrightarrow> iou a b = 0)"
proof (intro conjI impI)
  assume "ax1 < ax2 \<and> ay1 < ay2"
  then have "0 < box_area (ax1, ay1, ax2, ay2)" by (simp add: box_area_positive)
  then show "iou (ax1, ay1, ax2, ay2) (ax1, ay1, ax2, ay2) = 1"
    by (simp add: iou_eq inter_area_self)
next
  have "inter_area a b = inter_area b a" by (rule inter_area_commute)
  moreover have "box_area a + box_area b = box_area b + box_area a" by simp
  ultimately show "iou a b = iou b a" by (simp only: iou_eq)
next
  assume "box_area a + box_area b - inter_area a b \<le> 0"
  then have "\<not> box_area a + box_area b - inter_area a b > 0" by simp
  then show "iou a b = 0" by (simp only: iou_eq if_False)
qed

theorem iou_properties_witness:
  "(0::real) < 2 \<and> (0::real) < 2 \<and> iou (0, 0, 2, 2) (0, 0, 2, 2) = 1
   \<and> iou (0, 0, 2, 2) (1, 1, 3, 3) = iou (1, 1, 3, 3) (0, 0, 2, 2)
   \<and> box_area (1, 1, 1, 1) + box_area (1, 1, 1, 1) - inter_area (1, 1, 1, 1) (1, 1, 1, 1) \<le> 0
   \<and> iou (1, 1, 1, 1) (1, 1, 1, 1) = 0"
proof -
  have d: "box_area (1, 1, 1, 1) + box_area (1, 1, 1, 1)
             - inter_area (1, 1, 1, 1) (1, 1, 1, 1) \<le> 0"
    by (simp add: box_area_def inter_area_def)
  have p: "(0::real) < 2 \<and> (0::real) < 2" by simp
  note a = iou_properties [of 0 2 0 2 "(0, 0, 2, 2)" "(1, 1, 3, 3)"]
  note b = iou_properties [of 0 2 0 2 "(1, 1, 1, 1)" "(1, 1, 1, 1)"]
  from a p have 1: "iou (0, 0, 2, 2) (0, 0, 2, 2) = 1" by blast
  from a have 2: "iou (0, 0, 2, 2) (1, 1, 3, 3) = iou (1, 1, 3, 3) (0, 0, 2, 2)" by blast
  from b d have 3: "iou (1, 1, 1, 1) (1, 1, 1, 1) = 0" by blast
  from p 1 2 3 d show ?thesis by blast
qed

section \<open>Properties of the detection normalizer\<close>

lemma estimate_repair_details_returns:
  "\<exists>d. estimate_repair_details r dt sev ar conf = Inr d"
  by (simp add: estimate_repair_details_def estimate_locals_eq)

lemma normalize_box_returns:
  assumes "0 < w" and "0 < h"
  shows "\<exists>d. normalize_box r names w h b conf cls_id = Inr d"
proof -
  obtain x_min y_min x_max y_max where b: "b = (x_min, y_min, x_max, y_max)" by (cases b)
  obtain severity area_ratio where
    s: "get_damage_severity (x_max - x_min) (y_max - y_min) (real w) (real h)
          = (severity, area_ratio)"
    by (cases "get_damage_severity (x_max - x_min) (y_max - y_min) (real w) (real h)")
  obtain rep where
    e: "estimate_repair_details r
          (case names cls_id of None \<Rightarrow> ''class_'' @ str_int cls_id | Some n \<Rightarrow> n)
          severity area_ratio conf = Inr rep"
    using estimate_repair_details_returns by blast
  show ?thesis using assms by (simp add: normalize_box_def b s e Let_def)
qed

lemma normalize_box_unit_box:
  assumes "normalize_box r names w h b conf cls_id = Inr d" and "box_within b w h"
  shows "unit_box d"
proof -
  obtain x_min y_min x_max y_max where b: "b = (x_min, y_min, x_max, y_max)" by (cases b)
  obtain severity area_ratio where
    s: "get_damage_severity (x_max - x_min) (y_max - y_min) (real w) (real h)
          = (severity, area_ratio)"
    by (cases "get_damage_severity (x_max - x_min) (y_max - y_min) (real w) (real h)")
  obtain rep where
    e: "estimate_repair_details r
          (case names cls_id of None \<Rightarrow> ''class_'' @ str_int cls_id | Some n \<Rightarrow> n)
          severity area_ratio conf = Inr rep"
    using estimate_repair_details_returns by blast
  have wh: "0 < w" "0 < h"
    using assms(1) by (auto simp: normalize_box_def b s e Let_def split: if_splits)
  have bw: "0 \<le> x_min" "x_min \<le> x_max" "x_max \<le> real w"
    "0 \<le> y_min" "y_min \<le> y_max" "y_max \<le> real h"
    using assms(2) by (simp_all add: box_within_def b)
  have unit: "of_int 0 / 10 ^ 4 \<le> py_round_nd v 4 \<and> py_round_nd v 4 \<le> of_int 10000 / 10 ^ 4"
    if "0 \<le> v" and "v \<le> 1" for v
    using that by (intro py_round_nd_bounds) simp_all
  have x: "0 \<le> x_min / real w" "x_min / real w \<le> 1"
    using wh bw by simp_all
  have y: "0 \<le> y_min / real h" "y_min / real h \<le> 1"
    using wh bw by simp_all
  have nw: "0 \<le> (x_max - x_min) / real w" "(x_max - x_min) / real w \<le> 1"
    using wh bw by simp_all
  have nh: "0 \<le> (y_max - y_min) / real h" "(y_max - y_min) / real h \<le> 1"
    using wh bw by simp_all
  have d: "d = \<lparr>det_class = (case names cls_id of None \<Rightarrow> ''class_'' @ str_int cls_id | Some n \<Rightarrow> n),
                 det_type = (case names cls_id of None \<Rightarrow> ''class_'' @ str_int cls_id | Some n \<Rightarrow> n),
                 det_conf = py_round_nd conf 4,
                 det_confidence = py_round_nd (conf * 100) 2,
                 det_x = py_round_nd (x_min / real w) 4,
                 det_y = py_round_nd (y_min / real h) 4,
                 det_width = py_round_nd ((x_max - x_min) / real w) 4,
                 det_height = py_round_nd ((y_max - y_min) / real h) 4,
                 det_area_ratio = py_round_nd area_ratio 4,
                 det_severity = severity,
                 det_repair_cost = rd_total_cost rep,
                 det_repair_details = json_safe rep\<rparr>"
    using assms(1) wh by (simp add: normalize_box_def b s e Let_def)
  show ?thesis
    using unit [OF x] unit [OF y] unit [OF nw] unit [OF nh]
    by (simp add: unit_box_def d)
qed

lemma boxes_loop_map:
  assumes "0 < w" and "0 < h"
    and "\<forall>i\<in>set idx. i < length xyxy \<and> i < length confs \<and> i < length clss"
  shows "boxes_loop r names w h xyxy confs clss idx acc =
     Inr (acc @ map (\<lambda>i. projr (normalize_box r names w h (xyxy ! i) (confs ! i) (clss ! i))) idx)"
  using assms(3)
proof (induction idx arbitrary: acc)
  case Nil
  then show ?case by simp
next
  case (Cons i idx)
  obtain d where d: "normalize_box r names w h (xyxy ! i) (confs ! i) (clss ! i) = Inr d"
    using normalize_box_returns [OF assms(1,2)] by blast
  from Cons.prems have i: "i < length xyxy" "i < length confs" "i < length clss" by simp_all
  from Cons.prems have rest: "\<forall>i\<in>set idx. i < length xyxy \<and> i < length confs \<and> i < length clss"
    by simp
  show ?case by (simp add: np_index_def i d Cons.IH [OF rest])
qed


lemma analyze_image_bytes_raw:
  assumes "imdecode image_bytes = Decoded img" and "model_predict m img = Inr results"
    and "raw_detections results = (xyxy, confs, clss)"
  shows "analyze_image_bytes r imdecode m image_bytes =
           (case boxes_loop r (model_names m) (img_w img) (img_h img) xyxy confs clss
                   [0..<length xyxy] [] of
              Inl e \<Rightarrow> Inl (Raised e)
            | Inr detections \<Rightarrow> Inr detections)"
  using assms
  by (auto simp: analyze_image_bytes_def raw_detections_def
      split: list.splits option.splits)

text \<open>
  C6. For an image of positive width and height and raw detections given as parallel
  arrays, the normalizer returns one detection record per raw detection, the i-th record
  being the normalization of the i-th raw detection; and the record of a raw box that
  lies within [0, W] x [0, H] has its normalized x, y, width and height in [0, 1].
\<close>

theorem analyze_image_bytes_size_order_range:
  assumes "imdecode image_bytes = Decoded img" and "0 < img_w img" and "0 < img_h img"
    and "model_predict m img = Inr results"
    and "raw_detections results = (xyxy, confs, clss)"
    and "length confs = length xyxy" and "length clss = length xyxy"
  shows "\<exists>ds. analyze_image_bytes r imdecode m image_bytes = Inr ds
           \<and> length ds = length xyxy
           \<and> (\<forall>i<length xyxy.
                 normalize_box r (model_names m) (img_w img) (img_h img)
                   (xyxy ! i) (confs ! i) (clss ! i) = Inr (ds ! i))
           \<and> (\<forall>i<length xyxy.
                 box_within (xyxy ! i) (img_w img) (img_h img) \<longrightarrow> unit_box (ds ! i))"
proof -
  define ds where
    "ds = map (\<lambda>i. projr (normalize_box r (model_names m) (img_w img) (img_h img)
                            (xyxy ! i) (confs ! i) (clss ! i))) [0..<length xyxy]"
  have idx: "\<forall>i\<in>set [0..<length xyxy]. i < length xyxy \<and> i < length confs \<and> i < length clss"
    using assms(6,7) by simp
  have loop: "boxes_loop r (model_names m) (img_w img) (img_h img) xyxy confs clss
                [0..<length xyxy] [] = Inr ds"
    using boxes_loop_map [OF assms(2,3) idx, of r "model_names m" "[]"]
    by (simp add: ds_def)
  have res: "analyze_image_bytes r imdecode m image_bytes = Inr ds"
    by (simp add: loop
        analyze_image_bytes_raw [where imdecode = imdecode and image_bytes = image_bytes,
          OF assms(1,4,5)])
  have len: "length ds = length xyxy" by (simp add: ds_def)
  have nth: "normalize_box r (model_names m) (img_w img) (img_h img)
               (xyxy ! i) (confs ! i) (clss ! i) = Inr (ds ! i)" if "i < length xyxy" for i
  proof -
    obtain d where d: "normalize_box r (model_names m) (img_w img) (img_h img)
               (xyxy ! i) (confs ! i) (clss ! i) = Inr d"
      using normalize_box_returns [OF assms(2,3)] by blast
    then show ?thesis using that by (simp add: ds_def)
  qed
  have unit: "unit_box (ds ! i)"
    if "i < length xyxy" and "box_within (xyxy ! i) (img_w img) (img_h img)" for i
    using normalize_box_unit_box [OF nth [OF that(1)] that(2)] .
  show ?thesis using res len nth unit by blast
qed

theorem analyze_image_bytes_size_order_range_witness:
  "decode_as \<lparr>img_h = 1000, img_w = 1000, img_pixels = []\<rparr> [255, 216] 
      = Decoded \<lparr>img_h = 1000, img_w = 1000, img_pixels = []\<rparr>
   \<and> box_within (100, 100, 300, 300) 1000 1000
   \<and> box_within (0, 0, 10, 10) 1000 1000
   \<and> (\<exists>ds. analyze_image_bytes default_rates
              (decode_as \<lparr>img_h = 1000, img_w = 1000, img_pixels = []\<rparr>)
              (fixed_detector (map_of [(0, ''scratch'')])
                 [\<lparr>result_boxes = Some \<lparr>boxes_xyxy = Some [(100, 100, 300, 300), (0, 0, 10, 10)],
                                        boxes_conf = [0.9, 0.6], boxes_cls = [0, 7]\<rparr>\<rparr>])
              [255, 216] = Inr ds
          \<and> length ds = 2 \<and> unit_box (ds ! 0) \<and> unit_box (ds ! 1))"
proof -
  let ?img = "\<lparr>img_h = 1000, img_w = 1000, img_pixels = []\<rparr>"
  let ?results = "[\<lparr>result_boxes = Some \<lparr>boxes_xyxy = Some [(100, 100, 300, 300), (0, 0, 10, 10)],
                                        boxes_conf = [0.9, 0.6], boxes_cls = [0, 7]\<rparr>\<rparr>]"
  let ?m = "fixed_detector (map_of [(0, ''scratch'')]) ?results"
  have 1: "decode_as ?img [255, 216] = Decoded ?img" by (simp add: decode_as_def)
  have 2: "0 < img_w ?img" and 3: "0 < img_h ?img" by simp_all
  have 4: "model_predict ?m ?img = Inr ?results" by (simp add: fixed_detector_def)
  have 5: "raw_detections ?results = ([(100, 100, 300, 300), (0, 0, 10, 10)], [0.9, 0.6], [0, 7])"
    by (simp add: raw_detections_def)
  have 6: "length [0.9, 0.6 :: real] = length [(100, 100, 300, 300), (0, 0, 10, 10 :: real)]"
    and 7: "length [0, 7 :: int] = length [(100, 100, 300, 300), (0, 0, 10, 10 :: real)]"
    by simp_all
  have b0: "box_within (100, 100, 300, 300) 1000 1000"
    and b1: "box_within (0, 0, 10, 10) 1000 1000"
    by (simp_all add: box_within_def)
  obtain ds where ds: "analyze_image_bytes default_rates (decode_as ?img) ?m [255, 216] = Inr ds"
    "length ds = 2"
    "\<forall>i<2. box_within ([(100, 100, 300, 300), (0, 0, 10, 10)] ! i) 1000 1000
             \<longrightarrow> unit_box (ds ! i)"
    using analyze_image_bytes_size_order_range
      [where imdecode = "decode_as ?img" and image_bytes = "[255, 216]" and r = default_rates,
        OF 1 2 3 4 5 6 7]
    by auto
  from ds(3) b0 have u0: "unit_box (ds ! 0)" by force
  from ds(3) b1 have u1: "unit_box (ds ! 1)" by force
  from 1 b0 b1 ds(1,2) u0 u1 show ?thesis by blast
qed



lemma analyze_image_bytes_invalid_image_iff:
  "(\<exists>e. invalid_image e \<and> analyze_image_bytes r imdecode m image_bytes = Inl e)
     \<longleftrightarrow> (\<forall>img. imdecode image_bytes \<noteq> Decoded img)"
  by (cases "imdecode image_bytes")
    (auto simp: analyze_image_bytes_def invalid_image_def
      split: sum.splits list.splits option.splits)



end
